theory Spec2Isabelle
  imports Complex_Main "HOL-Library.Sublist"
begin

section \<open>The file system as the manager sees it\<close>

text \<open>
  A path is the list of its components, as \<open>pathlib.Path.parts\<close> gives them:
  \<open>profile_dir / ".disabledmods"\<close> is \<open>profile_dir @ [''.disabledmods'']\<close>, the parent of a
  path is \<open>butlast\<close> and its \<open>name\<close> is \<open>last\<close>. The disk is the list of the regular files
  and the list of the directories that exist; the contents of mod files play no part in
  what the manager does and are left out.

  Every call that touches the disk can fail for reasons the program does not control
  (a locked file, a missing permission, another device). Those reasons are one parameter,
  \<open>fails\<close>, which says for each operation whether the operating system refuses it; what
  follows from the disk itself (unlinking a file that is not there, writing into a
  directory that does not exist) is computed. A refused call on a mod file leaves the list
  of files as it found it. File names are compared as they are written, as on a
  case-sensitive file system.
\<close>

type_synonym path = "string list"

datatype fsop =
    Mkdir path
  | Unlink path
  | Rename path path
  | Copy path path
  | WriteFile path
  | OpenZip path

datatype exn =
    FileNotFoundError
  | OSError
  | ValueError
  | KeyError
  | RuntimeError string
  | WrongUrl string
  | ModFileNotFound
  | OtherError string

record fs =
  files :: "path list"
  dirs :: "path list"

definition is_file :: "fs \<Rightarrow> path \<Rightarrow> bool" where
  "is_file s p = (p \<in> set (files s))"

definition is_dir :: "fs \<Rightarrow> path \<Rightarrow> bool" where
  "is_dir s p = (p \<in> set (dirs s))"

definition exists_path :: "fs \<Rightarrow> path \<Rightarrow> bool" where
  "exists_path s p = (is_file s p \<or> is_dir s p)"

definition add_file :: "path \<Rightarrow> fs \<Rightarrow> fs" where
  "add_file p s = s\<lparr>files := List.insert p (files s)\<rparr>"

definition del_file :: "path \<Rightarrow> fs \<Rightarrow> fs" where
  "del_file p s = s\<lparr>files := removeAll p (files s)\<rparr>"

definition add_dir :: "path \<Rightarrow> fs \<Rightarrow> fs" where
  "add_dir p s = s\<lparr>dirs := List.insert p (dirs s)\<rparr>"

text \<open>\<open>Path.unlink()\<close>: raises when the file is missing.\<close>

definition unlink :: "(fsop \<Rightarrow> bool) \<Rightarrow> path \<Rightarrow> fs \<Rightarrow> exn + fs" where
  "unlink fails p s =
     (if \<not> is_file s p then Inl FileNotFoundError
      else if fails (Unlink p) then Inl OSError
      else Inr (del_file p s))"

text \<open>\<open>Path.unlink(missing_ok=True)\<close>.\<close>

definition unlink_missing_ok :: "(fsop \<Rightarrow> bool) \<Rightarrow> path \<Rightarrow> fs \<Rightarrow> exn + fs" where
  "unlink_missing_ok fails p s =
     (if \<not> is_file s p then Inr s
      else if fails (Unlink p) then Inl OSError
      else Inr (del_file p s))"

text \<open>
  \<open>Path.rename(dst)\<close>: the source leaves its place and the destination is written; the
  destination's directory must exist.
\<close>

definition rename :: "(fsop \<Rightarrow> bool) \<Rightarrow> path \<Rightarrow> path \<Rightarrow> fs \<Rightarrow> exn + fs" where
  "rename fails src dst s =
     (if \<not> is_file s src \<or> \<not> is_dir s (butlast dst) then Inl FileNotFoundError
      else if fails (Rename src dst) then Inl OSError
      else Inr (add_file dst (del_file src s)))"

text \<open>\<open>shutil.copy2(src, dst)\<close>: the source stays; the destination's directory must exist.\<close>

definition copy2 :: "(fsop \<Rightarrow> bool) \<Rightarrow> path \<Rightarrow> path \<Rightarrow> fs \<Rightarrow> exn + fs" where
  "copy2 fails src dst s =
     (if \<not> is_file s src \<or> \<not> is_dir s (butlast dst) then Inl FileNotFoundError
      else if fails (Copy src dst) then Inl OSError
      else Inr (add_file dst s))"

text \<open>\<open>Path.mkdir(exist_ok=True)\<close>: the parent must exist.\<close>

definition mkdir :: "(fsop \<Rightarrow> bool) \<Rightarrow> path \<Rightarrow> fs \<Rightarrow> exn + fs" where
  "mkdir fails d s =
     (if is_dir s d then Inr s
      else if is_file s d \<or> \<not> is_dir s (butlast d) then Inl FileNotFoundError
      else if fails (Mkdir d) then Inl OSError
      else Inr (add_dir d s))"

text \<open>\<open>Path.mkdir(parents=True, exist_ok=True)\<close>: the missing ancestors are made too.\<close>

definition ancestors :: "path \<Rightarrow> path list" where
  "ancestors d = map (\<lambda>n. take n d) [1..<Suc (length d)]"

definition mkdir_parents :: "(fsop \<Rightarrow> bool) \<Rightarrow> path \<Rightarrow> fs \<Rightarrow> exn + fs" where
  "mkdir_parents fails d s =
     (if is_file s d \<or> fails (Mkdir d) then Inl OSError
      else Inr (fold add_dir (ancestors d) s))"

section \<open>The file relocator\<close>

text \<open>
  \<open>safe_file_move\<close> of \<open>gui.py\<close>. Its first \<open>try\<close> block makes the destination's parent,
  removes a destination that exists and renames; \<open>try_rename\<close> is that block, returning
  whether it ran to its end and the disk it left. The \<open>except\<close> branch copies and then
  unlinks the source inside one inner \<open>try\<close>, and returns \<open>False\<close> when either raises.
\<close>

definition try_rename :: "(fsop \<Rightarrow> bool) \<Rightarrow> path \<Rightarrow> path \<Rightarrow> fs \<Rightarrow> bool \<times> fs" where
  "try_rename fails src dst s =
     (case mkdir_parents fails (butlast dst) s of
        Inl e \<Rightarrow> (False, s)
      | Inr s1 \<Rightarrow>
          (case (if exists_path s1 dst then unlink fails dst s1 else Inr s1) of
             Inl e \<Rightarrow> (False, s1)
           | Inr s2 \<Rightarrow>
               (case rename fails src dst s2 of
                  Inl e \<Rightarrow> (False, s2)
                | Inr s3 \<Rightarrow> (True, s3))))"

definition copy_delete :: "(fsop \<Rightarrow> bool) \<Rightarrow> path \<Rightarrow> path \<Rightarrow> fs \<Rightarrow> bool \<times> fs" where
  "copy_delete fails src dst s =
     (case copy2 fails src dst s of
        Inl e \<Rightarrow> (False, s)
      | Inr s1 \<Rightarrow>
          (case unlink fails src s1 of
             Inl e \<Rightarrow> (False, s1)
           | Inr s2 \<Rightarrow> (True, s2)))"

definition safe_file_move :: "(fsop \<Rightarrow> bool) \<Rightarrow> path \<Rightarrow> path \<Rightarrow> fs \<Rightarrow> bool \<times> fs" where
  "safe_file_move fails src dst s =
     (case try_rename fails src dst s of
        (True, s1) \<Rightarrow> (True, s1)
      | (False, s1) \<Rightarrow> copy_delete fails src dst s1)"

text \<open>\<open>Path.name\<close>: the last component.\<close>

definition path_name :: "path \<Rightarrow> string" where
  "path_name p = (case rev p of [] \<Rightarrow> [] | n # ns \<Rightarrow> n)"

text \<open>
  \<open>shutil.move(src, dst)\<close> for a regular file: \<open>os.rename\<close>, and when that raises,
  \<open>copy2\<close> followed by \<open>os.unlink(src)\<close>. An exception leaves the disk as the last
  completed step left it, so the result carries the disk in both cases.
\<close>

definition shutil_move :: "(fsop \<Rightarrow> bool) \<Rightarrow> path \<Rightarrow> path \<Rightarrow> fs \<Rightarrow> exn option \<times> fs" where
  "shutil_move fails src dst s =
     (case rename fails src dst s of
        Inr s1 \<Rightarrow> (None, s1)
      | Inl e \<Rightarrow>
          (case copy2 fails src dst s of
             Inl e1 \<Rightarrow> (Some e1, s)
           | Inr s1 \<Rightarrow>
               (case unlink fails src s1 of
                  Inl e2 \<Rightarrow> (Some e2, s1)
                | Inr s2 \<Rightarrow> (None, s2))))"

text \<open>
  \<open>for f in candidates: shutil.move(str(f), str(target_dir / f.name))\<close>, with the number of
  files moved before the loop ended: the first exception ends it.
\<close>

fun move_all :: "(fsop \<Rightarrow> bool) \<Rightarrow> path list \<Rightarrow> path \<Rightarrow> fs \<Rightarrow> exn option \<times> nat \<times> fs" where
  "move_all fails [] d s = (None, 0, s)"
| "move_all fails (f # fs) d s =
     (case shutil_move fails f (d @ [path_name f]) s of
        (Some e, s1) \<Rightarrow> (Some e, 0, s1)
      | (None, s1) \<Rightarrow>
          (case move_all fails fs d s1 of (x, n, s2) \<Rightarrow> (x, Suc n, s2)))"

text \<open>
  \<open>for f in candidates: try: f.unlink(missing_ok=True) except Exception: log\<close>: a refused
  unlink is logged and the loop goes on.
\<close>

fun unlink_each :: "(fsop \<Rightarrow> bool) \<Rightarrow> path list \<Rightarrow> fs \<Rightarrow> fs" where
  "unlink_each fails [] s = s"
| "unlink_each fails (f # fs) s =
     unlink_each fails fs (case unlink_missing_ok fails f s of Inl e \<Rightarrow> s | Inr s1 \<Rightarrow> s1)"

text \<open>
  \<open>directory.glob(f"*{name}*")\<close>: the regular files directly in the directory whose name
  matches the pattern. For a name that is not empty and has none of the characters
  \<open>*\<close>, \<open>?\<close>, \<open>[\<close>, \<open>]\<close> in it, the pattern matches the file names that contain the
  name. For any other name \<open>pathlib\<close> reads the name as part of the pattern; what it
  matches then is the parameter \<open>pm\<close> (the pattern matching of the Python library, which
  is not part of the sources). Subdirectories are not candidates.
\<close>

definition plain :: "string \<Rightarrow> bool" where
  "plain nm = (nm \<noteq> [] \<and> list_all (\<lambda>c. c \<notin> set ''*?[]'') nm)"

definition glob :: "(string \<Rightarrow> string \<Rightarrow> bool) \<Rightarrow> fs \<Rightarrow> path \<Rightarrow> string \<Rightarrow> path list" where
  "glob pm s d nm =
     filter (\<lambda>p. p \<noteq> [] \<and> butlast p = d \<and>
                (if plain nm then sublist nm (last p) else pm nm (last p)))
       (files s)"

definition disabled_dir_of :: "path \<Rightarrow> path" where
  "disabled_dir_of profile_dir = profile_dir @ [''.disabledmods'']"

section \<open>Records, the database and the window's state\<close>

text \<open>
  A database record is the dictionary \<open>download_mod\<close> writes, with its nine keys; the
  database \<open>mod_db["mods"]\<close> is a Python dict, kept here as the list of its items in
  insertion order, since \<open>check_updates\<close> walks it in that order. A record read with
  \<open>.get("url", "")\<close> or \<open>.get("enabled", True)\<close> has the key in every record the program
  writes.
\<close>

record mod_info =
  name :: string
  local_name :: string
  zip_name :: string
  installed_date :: string
  updated_date :: string
  profile :: string
  enabled :: bool
  installed_path :: path
  url :: string

type_synonym mod_db = "(string \<times> mod_info) list"

text \<open>\<open>d[k] = v\<close>: a key that is there keeps its place, a new one goes last.\<close>

definition db_set :: "string \<Rightarrow> mod_info \<Rightarrow> mod_db \<Rightarrow> mod_db" where
  "db_set k v db =
     (if k \<in> fst ` set db then map (\<lambda>(k1, v1). if k1 = k then (k1, v) else (k1, v1)) db
      else db @ [(k, v)])"

definition db_del :: "string \<Rightarrow> mod_db \<Rightarrow> mod_db" where
  "db_del k db = filter (\<lambda>(k1, v1). k1 \<noteq> k) db"

text \<open>
  The three JSON files the window writes hold a value, are absent, or are damaged (cut
  short by a write that failed). A copy or a write that raises may have left its
  destination as it was, damaged, or complete.
\<close>

datatype 'a stored = Absent | Held 'a | Damaged

datatype leftover = Intact | Partial | Whole

definition left_by :: "leftover \<Rightarrow> 'a stored \<Rightarrow> 'a stored \<Rightarrow> 'a stored" where
  "left_by l prev full =
     (case l of Intact \<Rightarrow> prev | Partial \<Rightarrow> Damaged | Whole \<Rightarrow> full)"

text \<open>
  What the user and the network can observe, in the order it happens: the values given
  to \<open>progress_bar.setValue\<close>, the message boxes, each call of \<open>save_mod_db\<close>, each call of
  the loader's \<open>download_mod\<close> with its URL and directory, and an exception that leaves a
  slot uncaught. \<open>UpdateIncomplete\<close> is the warning box of \<open>check_updates\<close> with the
  failures it lists, \<open>Migrated\<close> the information box of \<open>edit_profile\<close> with its count.
  The log file is not modelled.
\<close>

datatype event =
    SetValue int
  | Warning string
  | Information string
  | Critical string
  | UpdateIncomplete "(string \<times> string) list"
  | Migrated nat
  | SaveCalled
  | Fetch string path
  | Escaped exn

text \<open>
  The environment: which disk operations the system refuses, and what a refused copy or
  write leaves at its destination; what \<open>pathlib\<close> matches for a name that is read as a
  pattern; what the loader's
  \<open>download_mod(url, mod_directory, progress_callback)\<close> does (the values it gives the
  callback, then the exception it raises, with the file it left cut short if any, or the
  name of the file it wrote; its resolver
  and the mod.io client are not part of the sources); the entries of each archive with
  their uncompressed sizes; the clock; and two string functions of \<open>gui.py\<close> that no
  property here depends on, the display name cut from a file name by two regular
  expressions and the URL clean-up by three \<open>replace\<close> calls.
\<close>

record env =
  refused :: "fsop \<Rightarrow> bool"
  leaves :: "fsop \<Rightarrow> leftover"
  pattern_match :: "string \<Rightarrow> string \<Rightarrow> bool"
  fetch :: "string \<Rightarrow> path \<Rightarrow> int list \<times> (exn \<times> string option + string)"
  zip_members :: "path \<Rightarrow> (string \<times> nat) list"
  now :: string
  display_name :: "string \<Rightarrow> string"
  clean_url :: "string \<Rightarrow> string"

record gui =
  mod_db :: mod_db
  profiles :: "(string \<times> path) list"
  disk :: fs
  db_file :: "mod_db stored"
  backup_file :: "mod_db stored"
  profiles_file :: "(string \<times> path) list stored"
  block_mod_status_change :: bool
  events :: "event list"

definition emit :: "event list \<Rightarrow> gui \<Rightarrow> gui" where
  "emit es g = g\<lparr>events := events g @ es\<rparr>"

fun str_exn :: "exn \<Rightarrow> string" where
  "str_exn (RuntimeError m) = m"
| "str_exn (WrongUrl m) = m"
| "str_exn (OtherError m) = m"
| "str_exn ModFileNotFound = []"
| "str_exn FileNotFoundError = ''FileNotFoundError''"
| "str_exn OSError = ''OSError''"
| "str_exn ValueError = ''ValueError''"
| "str_exn KeyError = ''KeyError''"

section \<open>Loading and saving the database\<close>

definition db_path :: path where "db_path = [''moddb.json'']"
definition backup_path :: path where "backup_path = [''moddb.json.bak'']"
definition profiles_path :: path where "profiles_path = [''profiles.json'']"

text \<open>
  \<open>save_mod_db\<close>: the backup copy and the write stand in one \<open>try\<close> block, so an exception
  of the copy goes to the \<open>except\<close> branch (a log line and a warning box) and the write is
  not reached.
\<close>

definition write_db :: "env \<Rightarrow> gui \<Rightarrow> gui" where
  "write_db E g =
     (if refused E (WriteFile db_path)
      then emit [Warning ''Failed to save mod database'']
             (g\<lparr>db_file := left_by (leaves E (WriteFile db_path)) (db_file g) (Held (mod_db g))\<rparr>)
      else g\<lparr>db_file := Held (mod_db g)\<rparr>)"

definition save_mod_db :: "env \<Rightarrow> gui \<Rightarrow> gui" where
  "save_mod_db E g =
     (let g0 = emit [SaveCalled] g in
      if db_file g0 = Absent then write_db E g0
      else if refused E (Copy db_path backup_path)
      then emit [Warning ''Failed to save mod database'']
             (g0\<lparr>backup_file :=
                   left_by (leaves E (Copy db_path backup_path)) (backup_file g0) (db_file g0)\<rparr>)
      else write_db E (g0\<lparr>backup_file := db_file g0\<rparr>))"

text \<open>
  \<open>refresh_mod_tree\<close> rebuilds the tree widget from the database; the widget is not
  modelled, the progress values it reports for more than 100 records are.
\<close>

definition refresh_mod_tree :: "gui \<Rightarrow> gui" where
  "refresh_mod_tree g =
     (let n = length (mod_db g) in
      if n > 100
      then emit (SetValue 0 # map (\<lambda>i. SetValue (int (((i + 1) * 100) div n))) [0..<n]) g
      else g)"

section \<open>The archive extractor\<close>

definition CHUNK_SIZE :: nat where
  "CHUNK_SIZE = 1024 * 1024"

definition endswith :: "string \<Rightarrow> string \<Rightarrow> bool" where
  "endswith f x = suffix x f"

text \<open>The filter of \<open>valid_files\<close>: no directory marker, nothing with \<open>.disabledmods\<close> in it.\<close>

definition valid_member :: "string \<Rightarrow> bool" where
  "valid_member f =
     (\<not> (endswith f ''/'' \<or> endswith f [CHR 0x5C] \<or> sublist ''.disabledmods'' f))"

text \<open>\<open>Path(member).parts\<close> for a relative member name with \<open>/\<close> as separator.\<close>

fun split_path :: "string \<Rightarrow> string \<Rightarrow> path" where
  "split_path acc [] = (if acc = [] then [] else [acc])"
| "split_path acc (c # cs) =
     (if c = CHR ''/'' then (if acc = [] then [] else [acc]) @ split_path [] cs
      else split_path (acc @ [c]) cs)"

definition member_parts :: "string \<Rightarrow> path" where
  "member_parts m = filter (\<lambda>c. c \<noteq> ''.'') (split_path [] m)"

text \<open>\<open>Path.suffix\<close> and \<open>str.lower\<close> (on ASCII letters).\<close>

definition suffix_of :: "string \<Rightarrow> string" where
  "suffix_of nm =
     (let r = takeWhile (\<lambda>c. c \<noteq> CHR ''.'') (rev nm) in
      if length r = length nm \<or> r = [] \<or> Suc (length r) = length nm then []
      else CHR ''.'' # rev r)"

definition lower_char :: "char \<Rightarrow> char" where
  "lower_char c =
     (if 65 \<le> (of_char c :: nat) \<and> (of_char c :: nat) \<le> 90
      then char_of ((of_char c :: nat) + 32) else c)"

definition lower :: "string \<Rightarrow> string" where
  "lower s = map lower_char s"

text \<open>
  The blocks \<open>source.read(CHUNK_SIZE)\<close> returns for an entry of \<open>n\<close> bytes, and the value
  \<open>int((processed_size / total_size) * 100)\<close> given to the callback after each block.
  Python computes the quotient in binary floating point; the model computes it exactly.
\<close>

definition chunks :: "nat \<Rightarrow> nat list" where
  "chunks n =
     replicate (n div CHUNK_SIZE) CHUNK_SIZE @ (if n mod CHUNK_SIZE = 0 then [] else [n mod CHUNK_SIZE])"

fun chunk_progress :: "nat \<Rightarrow> nat \<Rightarrow> nat list \<Rightarrow> int list" where
  "chunk_progress total_size processed [] = []"
| "chunk_progress total_size processed (c # cs) =
     int (((processed + c) * 100) div total_size) # chunk_progress total_size (processed + c) cs"

text \<open>
  The loop over \<open>valid_files\<close>: the exception if one is raised, the names appended to
  \<open>extracted_files\<close>, the values given to the callback, and the disk.
\<close>

fun extract_members ::
  "env \<Rightarrow> path \<Rightarrow> nat \<Rightarrow> (string \<times> nat) list \<Rightarrow> nat \<Rightarrow> fs \<Rightarrow> exn option \<times> string list \<times> int list \<times> fs"
where
  "extract_members E parent total_size [] processed s = (None, [], [], s)"
| "extract_members E parent total_size ((m, sz) # ms) processed s =
     (let target_path = parent @ member_parts m in
      case mkdir_parents (refused E) (butlast target_path) s of
        Inl e \<Rightarrow> (Some e, [], [], s)
      | Inr s1 \<Rightarrow>
          if refused E (WriteFile target_path) then (Some OSError, [], [], s1)
          else
            (case extract_members E parent total_size ms (processed + sz) (add_file target_path s1) of
               (x, names, prs, s2) \<Rightarrow>
                 (x, path_name (member_parts m) # names,
                  chunk_progress total_size processed (chunks sz) @ prs, s2)))"

text \<open>
  \<open>extract_mod(mod_path, remove_zip, progress_callback)\<close>: the list it returns, the values
  it gives the callback, and the disk. Every exception ends in the outer \<open>except\<close>, which
  returns the empty list.
\<close>

definition extract_mod :: "env \<Rightarrow> path \<Rightarrow> bool \<Rightarrow> fs \<Rightarrow> string list \<times> int list \<times> fs" where
  "extract_mod E mod_path remove_zip s =
     (if \<not> exists_path s mod_path then ([], [], s)
      else if \<not> is_file s mod_path then ([], [], s)
      else if lower (suffix_of (path_name mod_path)) \<noteq> ''.zip'' then ([], [], s)
      else if refused E (OpenZip mod_path) then ([], [], s)
      else
        (let valid_files = filter (\<lambda>(f, sz). valid_member f) (zip_members E mod_path) in
         if length valid_files = 0 then ([], [], s)
         else
           (case extract_members E (butlast mod_path) (sum_list (map snd valid_files))
                   valid_files 0 s of
              (Some e, names, prs, s1) \<Rightarrow> ([], prs, s1)
            | (None, names, prs, s1) \<Rightarrow>
                if remove_zip \<and> exists_path s1 mod_path
                then (case unlink (refused E) mod_path s1 of
                        Inl e \<Rightarrow> ([], prs, s1)
                      | Inr s2 \<Rightarrow> (names, prs, s2))
                else (names, prs, s1))))"

section \<open>Install\<close>

text \<open>
  The loader's \<open>download_mod\<close>. When the file is downloaded, the target directory has
  been made and the file is in it. When the call raises, it may have made the directory
  and left a file cut short; the environment says which (the name of that file, if any).
\<close>

definition loader_download_mod :: "env \<Rightarrow> string \<Rightarrow> path \<Rightarrow> fs \<Rightarrow> int list \<times> (exn + path) \<times> fs" where
  "loader_download_mod E u d s =
     (case fetch E u d of
        (prs, Inl (e, None)) \<Rightarrow> (prs, Inl e, s)
      | (prs, Inl (e, Some filename)) \<Rightarrow>
          (prs, Inl e, add_file (d @ [filename]) (fold add_dir (ancestors d) s))
      | (prs, Inr filename) \<Rightarrow>
          (prs, Inr (d @ [filename]), add_file (d @ [filename]) (fold add_dir (ancestors d) s)))"

text \<open>One turn of the loop over \<open>extracted_files\<close> in the window's \<open>download_mod\<close>.\<close>

definition register_installed ::
  "env \<Rightarrow> string \<Rightarrow> path \<Rightarrow> string \<Rightarrow> string \<Rightarrow> fs \<Rightarrow> string \<Rightarrow> mod_db \<Rightarrow> mod_db" where
  "register_installed E profile_name mod_dir zn cu s extracted_file db =
     (if \<not> is_file s (mod_dir @ [extracted_file]) then db
      else db_set extracted_file
             \<lparr>name = display_name E extracted_file, local_name = extracted_file, zip_name = zn,
              installed_date = now E, updated_date = now E, profile = profile_name,
              enabled = True, installed_path = mod_dir, url = cu\<rparr> db)"

text \<open>
  The window's \<open>download_mod\<close>, given the stripped text of the URL field and the selected
  profile. The three \<open>except\<close> branches each show a warning.
\<close>

definition install_warning :: "exn \<Rightarrow> string" where
  "install_warning e =
     (case e of
        WrongUrl m \<Rightarrow> ''Invalid mod URL. Please check the URL format.''
      | ModFileNotFound \<Rightarrow> ''No downloadable file found for this mod.''
      | _ \<Rightarrow> ''An error occurred: '' @ str_exn e)"

definition download_mod :: "env \<Rightarrow> string \<Rightarrow> string option \<Rightarrow> gui \<Rightarrow> gui" where
  "download_mod E url_text current g =
     (if url_text = [] then emit [Warning ''Please enter a mod URL''] g
      else case current of
        None \<Rightarrow> emit [Warning ''No profile selected.''] g
      | Some profile_name \<Rightarrow>
          (case map_of (profiles g) profile_name of
             None \<Rightarrow> emit [Escaped KeyError] g
           | Some mod_dir \<Rightarrow>
               (let cu = clean_url E url_text;
                    g1 = emit [SetValue 0, Fetch cu mod_dir] g
                in case loader_download_mod E cu mod_dir (disk g1) of
                     (prs, Inl e, s1) \<Rightarrow>
                       emit (map SetValue prs @ [Warning (install_warning e)]) (g1\<lparr>disk := s1\<rparr>)
                   | (prs, Inr file_path, s1) \<Rightarrow>
                       (case extract_mod E file_path True s1 of
                          (extracted_files, xprs, s2) \<Rightarrow>
                            (let g2 = emit (map SetValue prs) (g1\<lparr>disk := s2\<rparr>) in
                             if extracted_files = []
                             then emit [Warning (install_warning
                                    (RuntimeError ''No valid files extracted from archive.''))] g2
                             else refresh_mod_tree (save_mod_db E
                                    (g2\<lparr>mod_db :=
                                        fold (register_installed E profile_name mod_dir
                                                (path_name file_path) cu s2)
                                          extracted_files (mod_db g2)\<rparr>)))))))"

section \<open>Bulk update\<close>

text \<open>
  \<open>int(x)\<close> on a float truncates towards zero. The arithmetic of the progress callback is
  done by Python in binary floating point; the model does it in the rationals.
\<close>

definition py_int :: "rat \<Rightarrow> int" where
  "py_int x = (if 0 \<le> x then \<lfloor>x\<rfloor> else \<lceil>x\<rceil>)"

text \<open>
  The value the callback made by \<open>make_progress_callback(start_percent)\<close> gives the bar
  when it is called with \<open>progress\<close> while the loop's counter is \<open>completed\<close>.
\<close>

definition bar_value :: "nat \<Rightarrow> nat \<Rightarrow> bool \<Rightarrow> int \<Rightarrow> int" where
  "bar_value total_mods completed start_percent progress =
     (let progress_per_mod = 100 / of_nat total_mods;
          mod_base = of_nat completed * progress_per_mod;
          progress_portion = progress_per_mod / 2;
          current_progress = mod_base + (of_int progress / 100 * progress_portion)
      in py_int (min (if start_percent then current_progress + progress_portion
                      else current_progress) 100))"

text \<open>The two clean-up loops before a record is downloaded again.\<close>

definition remove_old ::
  "env \<Rightarrow> (string \<times> string) list \<Rightarrow> string \<Rightarrow> mod_info \<Rightarrow> fs \<Rightarrow> fs" where
  "remove_old E disabled_mods mod_id info s =
     (let profile_dir = installed_path info;
          s1 = (case map_of disabled_mods mod_id of
                  None \<Rightarrow> s
                | Some mod_name \<Rightarrow>
                    unlink_each (refused E)
                      (glob (pattern_match E) s (disabled_dir_of profile_dir) mod_name) s)
      in unlink_each (refused E) (glob (pattern_match E) s1 profile_dir (local_name info)) s1)"

text \<open>
  Moving a refreshed file back to the disabled folder: \<open>mkdir\<close>, unlink of an old file,
  \<open>rename\<close>; when one of them raises, \<open>copy2\<close> and \<open>unlink(missing_ok=True)\<close>; when that
  raises too, a log line.
\<close>

definition restore_disabled :: "(fsop \<Rightarrow> bool) \<Rightarrow> path \<Rightarrow> path \<Rightarrow> string \<Rightarrow> fs \<Rightarrow> fs" where
  "restore_disabled fails extracted_path disabled_dir nm s =
     (let disabled_path = disabled_dir @ [nm];
          attempt =
            (case mkdir fails disabled_dir s of
               Inl e \<Rightarrow> (False, s)
             | Inr s1 \<Rightarrow>
                 (case (if exists_path s1 disabled_path then unlink fails disabled_path s1
                        else Inr s1) of
                    Inl e \<Rightarrow> (False, s1)
                  | Inr s2 \<Rightarrow>
                      (case rename fails extracted_path disabled_path s2 of
                         Inl e \<Rightarrow> (False, s2)
                       | Inr s3 \<Rightarrow> (True, s3))))
      in case attempt of
           (True, s1) \<Rightarrow> s1
         | (False, s1) \<Rightarrow>
             (case copy2 fails extracted_path disabled_path s1 of
                Inl e \<Rightarrow> s1
              | Inr s2 \<Rightarrow>
                  (case unlink_missing_ok fails extracted_path s2 of
                     Inl e \<Rightarrow> s2
                   | Inr s3 \<Rightarrow> s3)))"

text \<open>One turn of the loop over \<open>extracted_files\<close> in \<open>check_updates\<close>.\<close>

definition register_updated :: "env \<Rightarrow> mod_info \<Rightarrow> bool \<Rightarrow> string \<Rightarrow> gui \<Rightarrow> gui" where
  "register_updated E info was_disabled extracted_file g =
     (let profile_dir = installed_path info;
          extracted_path = profile_dir @ [extracted_file]
      in if \<not> is_file (disk g) extracted_path then g
         else
           (let g1 = g\<lparr>mod_db :=
                        db_set extracted_file
                          (info\<lparr>local_name := extracted_file, updated_date := now E,
                                enabled := \<not> was_disabled\<rparr>) (mod_db g)\<rparr>
            in if was_disabled
               then g1\<lparr>disk := restore_disabled (refused E) extracted_path
                                 (disabled_dir_of profile_dir) extracted_file (disk g1)\<rparr>
               else g1))"

text \<open>
  One turn of the loop over the profile's records. The loop's variables are the counter
  \<open>completed\<close>, the list \<open>failed_mods\<close> and the window's state. \<open>redownload\<close> is the
  inner \<open>try\<close> block (download, extraction, registration) with its \<open>except\<close> branch,
  followed by the loop's last two lines; \<open>update_one\<close> is the whole turn: the test for
  the URL, both clean-up loops, then \<open>redownload\<close> on the disk they left. The
  statistics between the download and the extraction (a size and a speed for the log)
  are left out.
\<close>

type_synonym batch = "nat \<times> (string \<times> string) list \<times> gui"

definition redownload ::
  "env \<Rightarrow> nat \<Rightarrow> (string \<times> string) list \<Rightarrow> string \<times> mod_info \<Rightarrow> batch \<Rightarrow> batch" where
  "redownload E total_mods disabled_mods m st =
     (case m of (mod_id, info) \<Rightarrow>
      case st of (completed, failed_mods, g) \<Rightarrow>
        (let profile_dir = installed_path info;
             g1 = emit [Fetch (url info) profile_dir] g
         in case loader_download_mod E (url info) profile_dir (disk g1) of
              (prs, Inl e, s2) \<Rightarrow>
                (completed, failed_mods @ [(mod_id, str_exn e)],
                 emit (map (\<lambda>p. SetValue (bar_value total_mods completed False p)) prs)
                   (g1\<lparr>disk := s2\<rparr>))
            | (prs, Inr file_path, s2) \<Rightarrow>
                (case extract_mod E file_path True s2 of
                   (extracted_files, xprs, s3) \<Rightarrow>
                     (let g2 = emit
                            (map (\<lambda>p. SetValue (bar_value total_mods completed False p)) prs @
                             map (\<lambda>p. SetValue (bar_value total_mods completed True p)) xprs)
                            (g1\<lparr>disk := s3\<rparr>)
                      in if extracted_files = []
                         then (completed,
                               failed_mods @ [(mod_id, ''No files extracted from archive'')], g2)
                         else (Suc completed, failed_mods,
                               emit [SetValue (py_int (of_nat (Suc completed) *
                                                (100 / of_nat total_mods)))]
                                 (fold (register_updated E info
                                          (mod_id \<in> fst ` set disabled_mods))
                                    extracted_files g2))))))"

definition update_one ::
  "env \<Rightarrow> nat \<Rightarrow> (string \<times> string) list \<Rightarrow> string \<times> mod_info \<Rightarrow> batch \<Rightarrow> batch" where
  "update_one E total_mods disabled_mods m st =
     (case m of (mod_id, info) \<Rightarrow>
      case st of (completed, failed_mods, g) \<Rightarrow>
        if url info = [] then (completed, failed_mods @ [(mod_id, ''No URL found'')], g)
        else redownload E total_mods disabled_mods m
               (completed, failed_mods,
                g\<lparr>disk := remove_old E disabled_mods mod_id info (disk g)\<rparr>))"

text \<open>
  The dictionary \<open>disabled_mods\<close>, built before the loop from the profile's records:
  the key and the \<open>local_name\<close> of each record that is not enabled.
\<close>

definition disabled_mods_of :: "(string \<times> mod_info) list \<Rightarrow> (string \<times> string) list" where
  "disabled_mods_of mods =
     map (\<lambda>(mid, info). (mid, local_name info)) (filter (\<lambda>(mid, info). \<not> enabled info) mods)"

text \<open>
  \<open>check_updates\<close>, given the answer to the question box and the selected profile.
\<close>

definition check_updates :: "env \<Rightarrow> bool \<Rightarrow> string option \<Rightarrow> gui \<Rightarrow> gui" where
  "check_updates E reply_yes current g =
     (if \<not> reply_yes then g
      else case current of
        None \<Rightarrow> emit [Warning ''No profile selected.''] g
      | Some profile_name \<Rightarrow>
          (let mods = filter (\<lambda>(mid, info). profile info = profile_name) (mod_db g);
               total_mods = length mods
           in if total_mods = 0 then g
              else
                (let disabled_mods = disabled_mods_of mods
                 in case fold (update_one E total_mods disabled_mods) mods
                           (0, [], emit [SetValue 0] g) of
                      (completed, failed_mods, g1) \<Rightarrow>
                        (let g2 = refresh_mod_tree (save_mod_db E g1)
                         in if completed = total_mods \<and> failed_mods = []
                            then emit [SetValue 100,
                                       Information ''All mods updated successfully!''] g2
                            else emit [UpdateIncomplete failed_mods] g2))))"

section \<open>Enable and disable\<close>

text \<open>\<open>self.mod_db["mods"][mod_name]["enabled"] = is_enabled\<close>.\<close>

definition set_enabled :: "string \<Rightarrow> bool \<Rightarrow> mod_db \<Rightarrow> mod_db" where
  "set_enabled k b db = map (\<lambda>(k1, v1). if k1 = k then (k1, v1\<lparr>enabled := b\<rparr>) else (k1, v1)) db"

text \<open>
  \<open>on_mod_status_changed(item, column)\<close>. The item is its text and its check state; the
  result is the check state the item is left with, and the window's state. The call of
  \<open>mkdir\<close> stands before the \<open>try\<close> block, so its exception leaves the slot. While the slot
  resets the check state it holds \<open>block_mod_status_change\<close>, and the signal this raises
  returns at the slot's second test.
\<close>

definition toggle_commit :: "env \<Rightarrow> string \<Rightarrow> bool \<Rightarrow> gui \<Rightarrow> gui" where
  "toggle_commit E mod_name is_enabled g =
     save_mod_db E (g\<lparr>mod_db := set_enabled mod_name is_enabled (mod_db g)\<rparr>)"

definition toggle_moves ::
  "env \<Rightarrow> string \<Rightarrow> bool \<Rightarrow> path list \<Rightarrow> path \<Rightarrow> gui \<Rightarrow> bool \<times> gui" where
  "toggle_moves E mod_name is_enabled candidates target_dir g =
     (case move_all (refused E) candidates target_dir (disk g) of
        (Some e, n, s1) \<Rightarrow> (\<not> is_enabled, g\<lparr>disk := s1\<rparr>)
      | (None, n, s1) \<Rightarrow> (is_enabled, toggle_commit E mod_name is_enabled (g\<lparr>disk := s1\<rparr>)))"

definition on_mod_status_changed :: "env \<Rightarrow> string \<times> bool \<Rightarrow> nat \<Rightarrow> gui \<Rightarrow> bool \<times> gui" where
  "on_mod_status_changed E item column g =
     (case item of (mod_name, is_enabled) \<Rightarrow>
        if column \<noteq> 0 then (is_enabled, g)
        else if block_mod_status_change g then (is_enabled, g)
        else (case map_of (mod_db g) mod_name of
          None \<Rightarrow> (is_enabled, g)
        | Some info \<Rightarrow>
            (let profile_dir = installed_path info;
                 disabled_dir = disabled_dir_of profile_dir
             in case mkdir (refused E) disabled_dir (disk g) of
                  Inl e \<Rightarrow> (is_enabled, emit [Escaped e] g)
                | Inr s1 \<Rightarrow>
                    (let g1 = g\<lparr>disk := s1\<rparr>;
                         file_candidate = glob (pattern_match E) s1 profile_dir mod_name;
                         disabled_candidate = glob (pattern_match E) s1 disabled_dir mod_name
                     in if is_enabled
                        then (if disabled_candidate \<noteq> []
                              then toggle_moves E mod_name is_enabled disabled_candidate
                                     profile_dir g1
                              else if file_candidate = []
                              then (False, emit [Warning ''No mod files found''] g1)
                              else (is_enabled, toggle_commit E mod_name is_enabled g1))
                        else (if file_candidate \<noteq> []
                              then toggle_moves E mod_name is_enabled file_candidate
                                     disabled_dir g1
                              else if disabled_candidate = []
                              then (True, emit [Warning ''No mod files found''] g1)
                              else (is_enabled, toggle_commit E mod_name is_enabled g1))))))"

text \<open>\<open>update_mod_state(mod_name, is_enabled)\<close>, which no slot of the window calls.\<close>

fun safe_move_all :: "(fsop \<Rightarrow> bool) \<Rightarrow> path list \<Rightarrow> path \<Rightarrow> fs \<Rightarrow> bool \<times> fs" where
  "safe_move_all fails [] d s = (True, s)"
| "safe_move_all fails (f # fs) d s =
     (case safe_file_move fails f (d @ [path_name f]) s of
        (False, s1) \<Rightarrow> (False, s1)
      | (True, s1) \<Rightarrow> safe_move_all fails fs d s1)"

definition update_mod_state :: "env \<Rightarrow> string \<Rightarrow> bool \<Rightarrow> gui \<Rightarrow> bool \<times> gui" where
  "update_mod_state E mod_name is_enabled g =
     (case map_of (mod_db g) mod_name of
        None \<Rightarrow> (False, g)
      | Some info \<Rightarrow>
          (let profile_dir = installed_path info;
               disabled_dir = disabled_dir_of profile_dir;
               src_dir = (if \<not> is_enabled then profile_dir else disabled_dir);
               dst_dir = (if \<not> is_enabled then disabled_dir else profile_dir);
               candidates = glob (pattern_match E) (disk g) src_dir mod_name
           in if candidates = [] then (False, g)
              else (case safe_move_all (refused E) candidates dst_dir (disk g) of
                      (False, s1) \<Rightarrow> (False, g\<lparr>disk := s1\<rparr>)
                    | (True, s1) \<Rightarrow>
                        (True, toggle_commit E mod_name is_enabled (g\<lparr>disk := s1\<rparr>)))))"

section \<open>Delete\<close>

text \<open>
  One turn of the loop over \<open>mod_names\<close> in \<open>delete_selected_mods\<close>: the record is looked
  up by its \<open>local_name\<close>; \<open>if found_mod_id:\<close> and \<open>if path_str:\<close> test for the empty string.
\<close>

definition delete_one :: "env \<Rightarrow> string \<Rightarrow> gui \<Rightarrow> gui" where
  "delete_one E mod_name g =
     (case find (\<lambda>(mid, info). local_name info = mod_name) (mod_db g) of
        None \<Rightarrow> g
      | Some (found_mod_id, mod_info) \<Rightarrow>
          if found_mod_id = [] then g
          else
            (let main_dir = installed_path mod_info;
                 disabled_dir = disabled_dir_of main_dir;
                 s = disk g;
                 s1 = (if main_dir = [] then s
                       else
                         (let sa = (if is_dir s main_dir
                                    then unlink_each (refused E)
                                           (glob (pattern_match E) s main_dir mod_name) s
                                    else s)
                          in if is_dir sa disabled_dir
                             then unlink_each (refused E)
                                    (glob (pattern_match E) sa disabled_dir mod_name) sa
                             else sa))
             in g\<lparr>disk := s1, mod_db := db_del found_mod_id (mod_db g)\<rparr>))"

definition delete_selected_mods ::
  "env \<Rightarrow> string option \<Rightarrow> string list \<Rightarrow> bool \<Rightarrow> gui \<Rightarrow> gui" where
  "delete_selected_mods E current selected reply_yes g =
     (case current of
        None \<Rightarrow> emit [Warning ''No profile selected.''] g
      | Some profile_name \<Rightarrow>
          if selected = [] then g
          else
            (let mod_names =
                   filter (\<lambda>t. map_option profile (map_of (mod_db g) t) = Some profile_name)
                     selected
             in if mod_names = []
                then emit [Warning ''No mods selected from current profile.''] g
                else if reply_yes
                then refresh_mod_tree (save_mod_db E (fold (delete_one E) mod_names g))
                else g))"

section \<open>Moving a profile to another directory\<close>

text \<open>\<open>self.profiles[profile_name]["mod_directory"] = str(path)\<close>.\<close>

definition set_profile_dir :: "string \<Rightarrow> path \<Rightarrow> (string \<times> path) list \<Rightarrow> (string \<times> path) list" where
  "set_profile_dir k d ps = map (\<lambda>(k1, d1). if k1 = k then (k1, d) else (k1, d1)) ps"

text \<open>
  \<open>edit_profile\<close>, given the selected profile, the directory chosen in the dialog (empty
  when the dialog is cancelled) and the answer to the question box. The moves, the update
  of the records and of the profile, and both writes stand in one \<open>try\<close> block; its
  \<open>except\<close> branch shows the error and sets the profile's directory to the old path.
\<close>

definition migrate_failed :: "string \<Rightarrow> path \<Rightarrow> exn \<Rightarrow> gui \<Rightarrow> gui" where
  "migrate_failed profile_name old_path e g =
     emit [Critical (''Failed to migrate files: '' @ str_exn e)]
       (g\<lparr>profiles := set_profile_dir profile_name old_path (profiles g)\<rparr>)"

text \<open>
  The list \<open>to_move\<close>: for each record installed in the old directory, the file of its
  \<open>local_name\<close> there, when that is a regular file.
\<close>

definition to_move :: "gui \<Rightarrow> path \<Rightarrow> path list" where
  "to_move g old_path =
     map (\<lambda>(mid, info). old_path @ [local_name info])
       (filter (\<lambda>(mid, info). installed_path info = old_path \<and> local_name info \<noteq> [] \<and>
                  is_file (disk g) (old_path @ [local_name info]))
          (mod_db g))"

definition edit_profile :: "env \<Rightarrow> string option \<Rightarrow> path \<Rightarrow> bool \<Rightarrow> gui \<Rightarrow> gui" where
  "edit_profile E current dir_path reply_yes g =
     (case current of
        None \<Rightarrow> g
      | Some profile_name \<Rightarrow>
          (case map_of (profiles g) profile_name of
             None \<Rightarrow> emit [Escaped KeyError] g
           | Some old_path \<Rightarrow>
               if dir_path = [] \<or> dir_path = old_path then g
               else
                 (let files_to_move = to_move g old_path
                  in if \<not> reply_yes then g
                     else
                       (case mkdir_parents (refused E) dir_path (disk g) of
                          Inl e \<Rightarrow> migrate_failed profile_name old_path e g
                        | Inr s1 \<Rightarrow>
                            (case move_all (refused E) files_to_move dir_path s1 of
                               (Some e, moved_count, s2) \<Rightarrow>
                                 migrate_failed profile_name old_path e (g\<lparr>disk := s2\<rparr>)
                             | (None, moved_count, s2) \<Rightarrow>
                                 (let g1 = g\<lparr>disk := s2,
                                            mod_db :=
                                              map (\<lambda>(mid, info).
                                                     (mid, if installed_path info = old_path
                                                           then info\<lparr>installed_path := dir_path\<rparr>
                                                           else info)) (mod_db g),
                                            profiles :=
                                              set_profile_dir profile_name dir_path (profiles g)\<rparr>
                                  in if refused E (WriteFile profiles_path)
                                     then migrate_failed profile_name old_path OSError
                                            (g1\<lparr>profiles_file :=
                                                  left_by (leaves E (WriteFile profiles_path))
                                                    (profiles_file g1) (Held (profiles g1))\<rparr>)
                                     else emit [Migrated moved_count]
                                            (save_mod_db E
                                               (g1\<lparr>profiles_file := Held (profiles g1)\<rparr>))))))))"

section \<open>Scenarios\<close>

text \<open>The concrete disks, databases and environments the theorems below are run on.\<close>

definition c3_src :: path where "c3_src = [''mods'', ''a.pak'']"
definition c3_dst :: path where "c3_dst = [''mods'', ''.disabledmods'', ''a.pak'']"
definition c3_disk :: fs where
  "c3_disk = \<lparr>files = [c3_src], dirs = [[''mods'']]\<rparr>"
definition c3_fails :: "fsop \<Rightarrow> bool" where
  "c3_fails op = (op = Rename c3_src c3_dst \<or> op = Unlink c3_src)"


definition rec_a :: mod_info where
  "rec_a = \<lparr>name = ''a'', local_name = ''a.pak'', zip_name = ''a.zip'',
            installed_date = ''t0'', updated_date = ''t0'', profile = ''Default'',
            enabled = True, installed_path = [''mods''], url = ''https://mod.io/g/x/m/a''\<rparr>"

definition env0 :: env where
  "env0 = \<lparr>refused = (\<lambda>op. False), leaves = (\<lambda>op. Intact),
           pattern_match = (\<lambda>nm f. False),
           fetch = (\<lambda>u d. ([], Inl (WrongUrl ''Invalid mod.io URL format'', None))),
           zip_members = (\<lambda>p. []), now = ''t1'', display_name = (\<lambda>f. f),
           clean_url = (\<lambda>u. u)\<rparr>"

definition gui0 :: gui where
  "gui0 = \<lparr>mod_db = [], profiles = [(''Default'', [''mods''])],
           disk = \<lparr>files = [], dirs = [[''mods'']]\<rparr>,
           db_file = Absent, backup_file = Absent,
           profiles_file = Held [(''Default'', [''mods''])],
           block_mod_status_change = False, events = []\<rparr>"

definition c4_env :: env where
  "c4_env = env0\<lparr>refused := (\<lambda>op. op = Copy db_path backup_path)\<rparr>"

definition c4_gui :: gui where
  "c4_gui = gui0\<lparr>mod_db := [(''a.pak'', rec_a)], db_file := Held []\<rparr>"

definition c10_env :: env where
  "c10_env = env0\<lparr>fetch := (\<lambda>u d. ([50, 100], Inr ''a.zip'')),
                  zip_members := (\<lambda>p. [(''docs/'', 0), (''.disabledmods/a.pak'', 7)])\<rparr>"

definition rec_b :: mod_info where
  "rec_b = rec_a\<lparr>name := ''b'', local_name := ''b.pak'', zip_name := ''b.zip'',
                 url := ''https://mod.io/g/x/m/b''\<rparr>"

definition rec_c :: mod_info where
  "rec_c = rec_a\<lparr>name := ''c'', local_name := ''c.pak'', zip_name := ''c.zip'',
                 url := ''https://mod.io/g/x/m/c''\<rparr>"

definition c2_gui :: gui where
  "c2_gui = gui0\<lparr>mod_db := [(''a.pak'', rec_a), (''b.pak'', rec_b), (''c.pak'', rec_c)],
                 disk := \<lparr>files = [[''mods'', ''a.pak''], [''mods'', ''b.pak''], [''mods'', ''c.pak'']],
                          dirs = [[''mods'']]\<rparr>\<rparr>"

definition c2_env :: env where
  "c2_env = env0\<lparr>refused := (\<lambda>op. op = Rename [''mods'', ''b.pak''] [''new'', ''b.pak''] \<or>
                               op = Copy [''mods'', ''b.pak''] [''new'', ''b.pak''])\<rparr>"




definition rec_gone :: mod_info where
  "rec_gone = rec_a\<lparr>installed_path := [''gone'']\<rparr>"

definition c7_gui :: gui where
  "c7_gui = gui0\<lparr>mod_db := [(''a.pak'', rec_gone)]\<rparr>"

text \<open>The values the progress bar was given, in order.\<close>

fun bar_values :: "event list \<Rightarrow> int list" where
  "bar_values [] = []"
| "bar_values (SetValue v # es) = v # bar_values es"
| "bar_values (e # es) = bar_values es"

definition c6_gui :: gui where
  "c6_gui = gui0\<lparr>mod_db := [(''a.pak'', rec_a), (''b.pak'', rec_b)],
                 disk := \<lparr>files = [[''mods'', ''a.pak''], [''mods'', ''b.pak'']],
                          dirs = [[''mods'']]\<rparr>\<rparr>"

definition c6_env :: env where
  "c6_env = env0\<lparr>fetch := (\<lambda>u d. if u = ''https://mod.io/g/x/m/a''
                                  then ([100], Inr ''a.zip'') else ([50, 100], Inr ''b.zip'')),
                  zip_members := (\<lambda>p. if p = [''mods'', ''b.zip''] then [(''b.pak'', 10)] else [])\<rparr>"

text \<open>
  What a bulk update is observed by: the downloads it asked for, in order; the cause
  \<open>check_updates\<close> records for a record that failed (no URL, the exception of the
  download, or an extraction that gave no file); and the entry written for a refreshed file.
\<close>

fun fetches :: "event list \<Rightarrow> (string \<times> path) list" where
  "fetches [] = []"
| "fetches (Fetch u d # es) = (u, d) # fetches es"
| "fetches (e # es) = fetches es"



section \<open>Facts about the moves\<close>

lemma path_name_snoc [simp]: "path_name (d @ [n]) = n"
  by (simp add: path_name_def)

lemma shutil_move_ok:
  assumes "shutil_move fails src dst s = (None, s')" and "src \<noteq> dst"
  shows "set (files s') = insert dst (set (files s) - {src})"
  using assms
  by (auto simp: shutil_move_def rename_def copy2_def unlink_def is_file_def add_file_def
      del_file_def split: sum.splits if_splits)

lemma shutil_move_err:
  assumes "shutil_move fails src dst s = (Some e, s')"
  shows "set (files s') = set (files s) \<or> set (files s') = insert dst (set (files s))"
  using assms
  by (auto simp: shutil_move_def rename_def copy2_def unlink_def is_file_def add_file_def
      del_file_def split: sum.splits if_splits)

lemma move_all_count:
  "move_all fails fs d s = (x, n, s') \<Longrightarrow>
     (x = None \<longrightarrow> n = length fs) \<and> (x \<noteq> None \<longrightarrow> n < length fs)"
proof (induction fs arbitrary: s n s' x)
  case Nil
  then show ?case by simp
next
  case (Cons f fs)
  then show ?case
    by (fastforce split: prod.splits option.splits)
qed

lemma move_all_files:
  assumes "move_all fails fs d s = (x, n, s')"
    and "\<forall>f\<in>set fs. f \<noteq> [] \<and> butlast f \<noteq> d"
  shows "set (files s') \<subseteq> set (files s) \<union> (\<lambda>f. d @ [path_name f]) ` set fs \<and>
         set (files s) - set (take n fs) \<subseteq> set (files s') \<and>
         (\<forall>f\<in>set (take n fs). d @ [path_name f] \<in> set (files s') \<and> f \<notin> set (files s'))"
  using assms
proof (induction fs arbitrary: s n s' x)
  case Nil
  then show ?case by simp
next
  case (Cons f fs)
  have fd: "f \<noteq> d @ [path_name f]"
    using Cons.prems(2) by (metis butlast_snoc list.set_intros(1))
  obtain y s1 where sm: "shutil_move fails f (d @ [path_name f]) s = (y, s1)"
    by (cases "shutil_move fails f (d @ [path_name f]) s")
  show ?case
  proof (cases y)
    case (Some e)
    with sm Cons.prems(1) have "n = 0" "s' = s1" by auto
    with shutil_move_err [OF sm [unfolded Some]] show ?thesis by auto
  next
    case None
    obtain x2 n2 s2 where rest: "move_all fails fs d s1 = (x2, n2, s2)"
      by (cases "move_all fails fs d s1")
    with sm None Cons.prems(1) have eq: "x = x2" "n = Suc n2" "s' = s2" by auto
    have ih: "set (files s2) \<subseteq> set (files s1) \<union> (\<lambda>f. d @ [path_name f]) ` set fs \<and>
         set (files s1) - set (take n2 fs) \<subseteq> set (files s2) \<and>
         (\<forall>f\<in>set (take n2 fs). d @ [path_name f] \<in> set (files s2) \<and> f \<notin> set (files s2))"
      using Cons.IH [OF rest] Cons.prems(2) by simp
    have s1: "set (files s1) = insert (d @ [path_name f]) (set (files s) - {f})"
      using shutil_move_ok [OF sm [unfolded None] fd] .
    have notsrc: "d @ [path_name f] \<notin> set fs"
      using Cons.prems(2) by (metis butlast_snoc list.set_intros(2))
    have fnot: "f \<notin> (\<lambda>f. d @ [path_name f]) ` set fs"
      using Cons.prems(2) by (metis (no_types, lifting) butlast_snoc image_iff list.set_intros(1))
    have a: "set (files s') \<subseteq> set (files s) \<union> (\<lambda>f. d @ [path_name f]) ` set (f # fs)"
      using ih s1 eq by auto
    have b: "set (files s) - set (take n (f # fs)) \<subseteq> set (files s')"
      using ih s1 eq by auto
    have c1: "d @ [path_name f] \<in> set (files s')"
    proof -
      have "d @ [path_name f] \<in> set (files s1) - set (take n2 fs)"
        using s1 notsrc by (auto dest: in_set_takeD)
      then show ?thesis using ih eq by blast
    qed
    have c2: "f \<notin> set (files s')"
      using ih s1 eq fnot fd by auto
    have c: "\<forall>g\<in>set (take n (f # fs)). d @ [path_name g] \<in> set (files s') \<and> g \<notin> set (files s')"
      using c1 c2 ih eq by auto
    from a b c show ?thesis by blast
  qed
qed

lemma map_of_set_profile_dir:
  "map_of ps k = Some d0 \<Longrightarrow> map_of (set_profile_dir k d ps) k = Some d"
  by (induction ps) (auto simp: set_profile_dir_def split: if_splits)

lemma to_move_sources:
  "\<forall>f\<in>set (to_move g old_path). f \<noteq> [] \<and> butlast f = old_path"
  by (auto simp: to_move_def)






lemma disabled_dir_of_neq [simp]: "disabled_dir_of d \<noteq> d" "d \<noteq> disabled_dir_of d"
  by (simp_all add: disabled_dir_of_def)

text \<open>The definitions a run on a concrete disk unfolds.\<close>

lemmas fs_defs = is_file_def is_dir_def exists_path_def add_file_def del_file_def add_dir_def
  unlink_def unlink_missing_ok_def rename_def copy2_def mkdir_def mkdir_parents_def
  ancestors_def path_name_def glob_def plain_def disabled_dir_of_def

lemmas zip_defs = extract_mod_def valid_member_def endswith_def member_parts_def suffix_of_def
  lower_def lower_char_def chunks_def CHUNK_SIZE_def loader_download_mod_def

lemma mkdir_files: "mkdir fails d s = Inr s1 \<Longrightarrow> files s1 = files s"
  by (auto simp: mkdir_def add_dir_def split: if_splits)

lemma glob_cong_files: "files s1 = files s \<Longrightarrow> glob pm s1 d nm = glob pm s d nm"
  by (simp add: glob_def)

lemma fetches_append [simp]: "fetches (xs @ ys) = fetches xs @ fetches ys"
  by (induction xs rule: fetches.induct) simp_all

lemma fetches_map_SetValue [simp]: "fetches (map (\<lambda>p. SetValue (h p)) ps) = []"
  by (induction ps) simp_all












section \<open>The relocator's report\<close>

lemma c3_run:
  "safe_file_move c3_fails c3_src c3_dst c3_disk =
     (False, \<lparr>files = [c3_dst, c3_src], dirs = [[''mods'', ''.disabledmods''], [''mods'']]\<rparr>)"
  by (simp add: safe_file_move_def try_rename_def copy_delete_def mkdir_parents_def
      ancestors_def rename_def copy2_def unlink_def exists_path_def is_file_def is_dir_def
      add_file_def add_dir_def del_file_def c3_src_def c3_dst_def c3_disk_def c3_fails_def
      upt_rec)

text \<open>
  C3, as stated, fails: with the rename refused, the copy done and the unlink of the
  source refused, the relocator returns \<open>False\<close> although the destination file exists.
\<close>

theorem safe_file_move_copy_ok_delete_fails_reports_failure:
  "\<not> fst (try_rename c3_fails c3_src c3_dst c3_disk) \<and>
   copy2 c3_fails c3_src c3_dst (snd (try_rename c3_fails c3_src c3_dst c3_disk)) \<noteq> Inl OSError \<and>
   copy2 c3_fails c3_src c3_dst (snd (try_rename c3_fails c3_src c3_dst c3_disk)) \<noteq> Inl FileNotFoundError \<and>
   \<not> fst (safe_file_move c3_fails c3_src c3_dst c3_disk) \<and>
   is_file (snd (safe_file_move c3_fails c3_src c3_dst c3_disk)) c3_dst"
  by (simp add: safe_file_move_def try_rename_def copy_delete_def mkdir_parents_def
      ancestors_def rename_def copy2_def unlink_def exists_path_def is_file_def is_dir_def
      add_file_def add_dir_def del_file_def c3_src_def c3_dst_def c3_disk_def c3_fails_def
      upt_rec)

text \<open>
  C3, amended: the relocator reports success exactly when the rename attempt runs to its
  end, or the copy and the unlink of the source both succeed on the disk the attempt left;
  when the attempt fails, the copy succeeds and the unlink fails, it reports failure, with
  the destination written and the source still in place.
\<close>

theorem safe_file_move_reports:
  "fst (safe_file_move fails src dst s) =
     (fst (try_rename fails src dst s) \<or>
      (\<exists>s1 s2. copy2 fails src dst (snd (try_rename fails src dst s)) = Inr s1 \<and>
                unlink fails src s1 = Inr s2)) \<and>
   (\<not> fst (try_rename fails src dst s) \<longrightarrow>
    (\<forall>s1 e. copy2 fails src dst (snd (try_rename fails src dst s)) = Inr s1 \<longrightarrow>
       unlink fails src s1 = Inl e \<longrightarrow>
       safe_file_move fails src dst s = (False, s1) \<and> is_file s1 dst \<and> is_file s1 src))"
  by (auto simp: safe_file_move_def copy_delete_def copy2_def unlink_def is_file_def
      add_file_def split: prod.splits sum.splits bool.splits if_splits)

theorem safe_file_move_reports_witness:
  "\<not> fst (try_rename c3_fails c3_src c3_dst c3_disk) \<and>
   copy2 c3_fails c3_src c3_dst (snd (try_rename c3_fails c3_src c3_dst c3_disk)) =
     Inr \<lparr>files = [c3_dst, c3_src], dirs = [[''mods'', ''.disabledmods''], [''mods'']]\<rparr> \<and>
   unlink c3_fails c3_src
     \<lparr>files = [c3_dst, c3_src], dirs = [[''mods'', ''.disabledmods''], [''mods'']]\<rparr> = Inl OSError \<and>
   safe_file_move c3_fails c3_src c3_dst c3_disk =
     (False, \<lparr>files = [c3_dst, c3_src], dirs = [[''mods'', ''.disabledmods''], [''mods'']]\<rparr>)"
  using safe_file_move_reports [of c3_fails c3_src c3_dst c3_disk]
  by (simp add: safe_file_move_def try_rename_def copy_delete_def mkdir_parents_def
      ancestors_def rename_def copy2_def unlink_def exists_path_def is_file_def is_dir_def
      add_file_def add_dir_def del_file_def c3_src_def c3_dst_def c3_disk_def c3_fails_def
      upt_rec)

section \<open>Saving the database when the backup fails\<close>

text \<open>
  C4, as stated, fails: a database file exists, the system refuses the backup copy and
  would accept the write, and after \<open>save_mod_db\<close> the file still holds the old contents,
  not the database in memory.
\<close>

theorem save_mod_db_backup_failure_blocks_write:
  "db_file c4_gui = Held [] \<and>
   \<not> refused c4_env (WriteFile db_path) \<and>
   db_file (save_mod_db c4_env c4_gui) = Held [] \<and>
   mod_db c4_gui \<noteq> []"
  by (simp add: save_mod_db_def write_db_def emit_def c4_env_def c4_gui_def env0_def gui0_def
      db_path_def backup_path_def)

text \<open>
  C4, amended: for every save where a persisted database file exists, the file is first
  copied to the backup. When the copy succeeds the backup holds what the file held and
  the new contents are written unless the write itself is refused. When the copy fails
  the save stops there: the new contents are not written, the database file keeps its
  previous contents and the user is shown a warning. (What a failed copy leaves of the
  backup is not promised.)
\<close>

theorem save_mod_db_backup_then_write:
  assumes "db_file g \<noteq> Absent"
  shows "(\<not> refused E (Copy db_path backup_path) \<longrightarrow>
            backup_file (save_mod_db E g) = db_file g \<and>
            (\<not> refused E (WriteFile db_path) \<longrightarrow>
               db_file (save_mod_db E g) = Held (mod_db g))) \<and>
         (refused E (Copy db_path backup_path) \<longrightarrow>
            db_file (save_mod_db E g) = db_file g \<and>
            mod_db (save_mod_db E g) = mod_db g \<and>
            events (save_mod_db E g) =
              events g @ [SaveCalled, Warning ''Failed to save mod database''])"
  using assms by (simp add: save_mod_db_def write_db_def emit_def Let_def)

theorem save_mod_db_backup_then_write_witness:
  "db_file c4_gui = Held [] \<and>
   refused c4_env (Copy db_path backup_path) \<and>
   db_file (save_mod_db c4_env c4_gui) = Held [] \<and>
   mod_db (save_mod_db c4_env c4_gui) = [(''a.pak'', rec_a)] \<and>
   events (save_mod_db c4_env c4_gui) = [SaveCalled, Warning ''Failed to save mod database'']"
proof -
  have h: "db_file c4_gui = Held []"
    by (simp add: c4_gui_def gui0_def)
  then have h': "db_file c4_gui \<noteq> Absent"
    by simp
  have r: "refused c4_env (Copy db_path backup_path)"
    by (simp add: c4_env_def env0_def)
  have "mod_db c4_gui = [(''a.pak'', rec_a)]" "events c4_gui = []"
    by (simp_all add: c4_gui_def gui0_def)
  with save_mod_db_backup_then_write [OF h', of c4_env] h r show ?thesis
    by simp
qed

section \<open>An archive with no eligible entry\<close>

lemma c10_no_valid_member:
  "filter (\<lambda>(f, sz). valid_member f) (zip_members c10_env [''mods'', ''a.zip'']) = []"
  by code_simp

lemma extract_mod_nothing_valid:
  assumes "filter (\<lambda>(f, sz). valid_member f) (zip_members E p) = []"
  shows "extract_mod E p remove_zip s = ([], [], s)"
  using assms by (simp add: extract_mod_def)

text \<open>
  C10: an archive none of whose entries is eligible (each is a directory marker or has
  \<open>.disabledmods\<close> in its name) makes \<open>extract_mod\<close> return the empty list and leave the
  disk, the archive included, as it was, also with \<open>remove_zip\<close> set; and the window's
  \<open>download_mod\<close>, having downloaded such an archive, registers nothing, writes no
  database file, shows the error for an empty extraction and leaves the archive on disk.
\<close>

theorem empty_archive_rejected:
  assumes "filter (\<lambda>(f, sz). valid_member f) (zip_members E p) = []"
  shows "extract_mod E p remove_zip s = ([], [], s) \<and>
         (\<forall>g url_text profile_name mod_dir prs filename.
            url_text \<noteq> [] \<longrightarrow>
            map_of (profiles g) profile_name = Some mod_dir \<longrightarrow>
            fetch E (clean_url E url_text) mod_dir = (prs, Inr filename) \<longrightarrow>
            p = mod_dir @ [filename] \<longrightarrow>
              mod_db (download_mod E url_text (Some profile_name) g) = mod_db g \<and>
              db_file (download_mod E url_text (Some profile_name) g) = db_file g \<and>
              is_file (disk (download_mod E url_text (Some profile_name) g)) p \<and>
              events (download_mod E url_text (Some profile_name) g) =
                events g @ [SetValue 0, Fetch (clean_url E url_text) mod_dir] @ map SetValue prs @
                  [Warning ''An error occurred: No valid files extracted from archive.''])"
proof (intro conjI allI impI)
  show "extract_mod E p remove_zip s = ([], [], s)"
    by (rule extract_mod_nothing_valid [OF assms])
next
  fix g :: gui and url_text profile_name mod_dir prs filename
  assume u: "url_text \<noteq> []"
    and pr: "map_of (profiles g) profile_name = Some mod_dir"
    and f: "fetch E (clean_url E url_text) mod_dir = (prs, Inr filename)"
    and p: "p = mod_dir @ [filename]"
  let ?s1 = "add_file p (fold add_dir (ancestors mod_dir) (disk g))"
  have dl: "loader_download_mod E (clean_url E url_text) mod_dir (disk g) = (prs, Inr p, ?s1)"
    by (simp add: loader_download_mod_def f p)
  have ex: "extract_mod E p True ?s1 = ([], [], ?s1)"
    by (rule extract_mod_nothing_valid [OF assms])
  have run: "download_mod E url_text (Some profile_name) g =
      emit [Warning (install_warning (RuntimeError ''No valid files extracted from archive.''))]
        (emit (map SetValue prs)
           ((emit [SetValue 0, Fetch (clean_url E url_text) mod_dir] g)\<lparr>disk := ?s1\<rparr>))"
    using u pr dl ex by (simp add: download_mod_def Let_def emit_def)
  show "mod_db (download_mod E url_text (Some profile_name) g) = mod_db g"
    by (simp add: run emit_def)
  show "db_file (download_mod E url_text (Some profile_name) g) = db_file g"
    by (simp add: run emit_def)
  show "is_file (disk (download_mod E url_text (Some profile_name) g)) p"
    by (simp add: run emit_def is_file_def add_file_def)
  show "events (download_mod E url_text (Some profile_name) g) =
          events g @ [SetValue 0, Fetch (clean_url E url_text) mod_dir] @ map SetValue prs @
            [Warning ''An error occurred: No valid files extracted from archive.'']"
    by (simp add: run emit_def install_warning_def)
qed

theorem empty_archive_rejected_witness:
  "filter (\<lambda>(f, sz). valid_member f) (zip_members c10_env [''mods'', ''a.zip'']) = [] \<and>
   extract_mod c10_env [''mods'', ''a.zip''] True \<lparr>files = [[''mods'', ''a.zip'']], dirs = [[''mods'']]\<rparr> =
     ([], [], \<lparr>files = [[''mods'', ''a.zip'']], dirs = [[''mods'']]\<rparr>) \<and>
   mod_db (download_mod c10_env ''u'' (Some ''Default'') gui0) = [] \<and>
   is_file (disk (download_mod c10_env ''u'' (Some ''Default'') gui0)) [''mods'', ''a.zip''] \<and>
   events (download_mod c10_env ''u'' (Some ''Default'') gui0) =
     [SetValue 0, Fetch ''u'' [''mods''], SetValue 50, SetValue 100,
      Warning ''An error occurred: No valid files extracted from archive.'']"
proof -
  have a: "''u'' \<noteq> []" by simp
  have b: "map_of (profiles gui0) ''Default'' = Some [''mods'']"
    by (simp add: gui0_def)
  have c: "fetch c10_env (clean_url c10_env ''u'') [''mods''] = ([50, 100], Inr ''a.zip'')"
    by (simp add: c10_env_def env0_def)
  have d: "[''mods'', ''a.zip''] = [''mods''] @ [''a.zip'']" by simp
  have e: "clean_url c10_env ''u'' = ''u''" by (simp add: c10_env_def env0_def)
  have f: "mod_db gui0 = []" "events gui0 = []" by (simp_all add: gui0_def)
  from empty_archive_rejected [OF c10_no_valid_member, of True
      "\<lparr>files = [[''mods'', ''a.zip'']], dirs = [[''mods'']]\<rparr>"]
  have 1: "extract_mod c10_env [''mods'', ''a.zip''] True \<lparr>files = [[''mods'', ''a.zip'']], dirs = [[''mods'']]\<rparr> =
     ([], [], \<lparr>files = [[''mods'', ''a.zip'']], dirs = [[''mods'']]\<rparr>)"
    and 2: "\<And>(g::gui) url_text profile_name mod_dir prs filename.
            url_text \<noteq> [] \<Longrightarrow>
            map_of (profiles g) profile_name = Some mod_dir \<Longrightarrow>
            fetch c10_env (clean_url c10_env url_text) mod_dir = (prs, Inr filename) \<Longrightarrow>
            [''mods'', ''a.zip''] = mod_dir @ [filename] \<Longrightarrow>
              mod_db (download_mod c10_env url_text (Some profile_name) g) = mod_db g \<and>
              db_file (download_mod c10_env url_text (Some profile_name) g) = db_file g \<and>
              is_file (disk (download_mod c10_env url_text (Some profile_name) g)) [''mods'', ''a.zip''] \<and>
              events (download_mod c10_env url_text (Some profile_name) g) =
                events g @ [SetValue 0, Fetch (clean_url c10_env url_text) mod_dir] @ map SetValue prs @
                  [Warning ''An error occurred: No valid files extracted from archive.'']"
    by blast+
  from 2 [OF a b c d] 1 c10_no_valid_member e f show ?thesis by simp
qed

section \<open>A profile's move in which one file cannot be moved\<close>

lemma c2_to_move:
  "to_move c2_gui [''mods''] = [[''mods'', ''a.pak''], [''mods'', ''b.pak''], [''mods'', ''c.pak'']]"
  by (simp add: to_move_def c2_gui_def gui0_def rec_a_def rec_b_def rec_c_def is_file_def)

lemma c2_mkdir:
  "mkdir_parents (refused c2_env) [''new''] (disk c2_gui) =
     Inr \<lparr>files = [[''mods'', ''a.pak''], [''mods'', ''b.pak''], [''mods'', ''c.pak'']],
          dirs = [[''new''], [''mods'']]\<rparr>"
  by (simp add: mkdir_parents_def c2_env_def env0_def c2_gui_def gui0_def is_file_def
      ancestors_def add_dir_def)

lemma c2_moves:
  "move_all (refused c2_env) [[''mods'', ''a.pak''], [''mods'', ''b.pak''], [''mods'', ''c.pak'']]
     [''new''] \<lparr>files = [[''mods'', ''a.pak''], [''mods'', ''b.pak''], [''mods'', ''c.pak'']],
          dirs = [[''new''], [''mods'']]\<rparr> =
   (Some OSError, 1, \<lparr>files = [[''new'', ''a.pak''], [''mods'', ''b.pak''], [''mods'', ''c.pak'']],
          dirs = [[''new''], [''mods'']]\<rparr>)"
  by (simp add: shutil_move_def rename_def copy2_def unlink_def is_file_def is_dir_def
      add_file_def del_file_def c2_env_def env0_def path_name_def)

lemma c2_run:
  "edit_profile c2_env (Some ''Default'') [''new''] True c2_gui =
     c2_gui\<lparr>disk := \<lparr>files = [[''new'', ''a.pak''], [''mods'', ''b.pak''], [''mods'', ''c.pak'']],
                      dirs = [[''new''], [''mods'']]\<rparr>,
            events := [Critical ''Failed to migrate files: OSError'']\<rparr>"
proof -
  have p: "map_of (profiles c2_gui) ''Default'' = Some [''mods'']"
    by (simp add: c2_gui_def gui0_def)
  show ?thesis
    by (simp add: edit_profile_def Let_def p c2_to_move c2_mkdir c2_moves migrate_failed_def
        emit_def set_profile_dir_def del: move_all.simps) (simp add: c2_gui_def gui0_def)
qed

text \<open>
  C2, as stated, fails: three tracked files, the system refuses to move the second. The
  first file is in the new directory and stays there, but no record's \<open>installed_path\<close>
  is updated (the first record's neither), the profile keeps the old directory, and the
  user gets an error box, not a count.
\<close>

theorem edit_profile_failed_move_updates_nothing:
  "is_file (disk (edit_profile c2_env (Some ''Default'') [''new''] True c2_gui)) [''new'', ''a.pak''] \<and>
   \<not> is_file (disk (edit_profile c2_env (Some ''Default'') [''new''] True c2_gui)) [''mods'', ''a.pak''] \<and>
   map (\<lambda>(mid, info). installed_path info)
     (mod_db (edit_profile c2_env (Some ''Default'') [''new''] True c2_gui)) =
       [[''mods''], [''mods''], [''mods'']] \<and>
   profiles (edit_profile c2_env (Some ''Default'') [''new''] True c2_gui) =
     [(''Default'', [''mods''])] \<and>
   events (edit_profile c2_env (Some ''Default'') [''new''] True c2_gui) =
     [Critical ''Failed to migrate files: OSError'']"
  by (simp add: c2_run is_file_def) (simp add: c2_gui_def gui0_def rec_a_def rec_b_def rec_c_def)

text \<open>
  C2, amended: when a relocation fails during a profile's move, the move stops at that
  file and is not rolled back on disk: the files moved before it are in the new directory
  and gone from the old one, the file that failed and the files after it are still in the
  old directory. No record's \<open>installed_path\<close> is changed, the profile's directory stays
  the old one, neither the profile store nor the database is written, and the user is
  shown the error that ended the move.
\<close>

theorem edit_profile_failed_move:
  assumes "map_of (profiles g) profile_name = Some old_path"
    and "dir_path \<noteq> []" and "dir_path \<noteq> old_path"
    and "mkdir_parents (refused E) dir_path (disk g) = Inr s1"
    and "move_all (refused E) (to_move g old_path) dir_path s1 = (Some e, n, s2)"
  shows "mod_db (edit_profile E (Some profile_name) dir_path True g) = mod_db g \<and>
         map_of (profiles (edit_profile E (Some profile_name) dir_path True g)) profile_name =
           Some old_path \<and>
         profiles_file (edit_profile E (Some profile_name) dir_path True g) = profiles_file g \<and>
         db_file (edit_profile E (Some profile_name) dir_path True g) = db_file g \<and>
         events (edit_profile E (Some profile_name) dir_path True g) =
           events g @ [Critical (''Failed to migrate files: '' @ str_exn e)] \<and>
         disk (edit_profile E (Some profile_name) dir_path True g) = s2 \<and>
         n < length (to_move g old_path) \<and>
         (\<forall>f\<in>set (take n (to_move g old_path)).
            is_file s2 (dir_path @ [path_name f]) \<and> \<not> is_file s2 f) \<and>
         (\<forall>f\<in>set (to_move g old_path) - set (take n (to_move g old_path)). is_file s2 f)"
proof -
  let ?g' = "edit_profile E (Some profile_name) dir_path True g"
  have run: "?g' = migrate_failed profile_name old_path e (g\<lparr>disk := s2\<rparr>)"
    using assms by (simp add: edit_profile_def)
  have src: "\<forall>f\<in>set (to_move g old_path). f \<noteq> [] \<and> butlast f \<noteq> dir_path"
    using to_move_sources [of g old_path] assms(3) by auto
  note mv = move_all_files [OF assms(5) src]
  have s1: "files s1 = files (disk g)"
    using assms(4)
    by (auto simp: mkdir_parents_def add_dir_def split: if_splits
        intro: fold_invariant [where Q = "\<lambda>_. True"])
  have were: "\<forall>f\<in>set (to_move g old_path). f \<in> set (files s1)"
    by (auto simp: to_move_def is_file_def s1)
  have cnt: "n < length (to_move g old_path)"
    using move_all_count [OF assms(5)] by simp
  have moved: "\<forall>f\<in>set (take n (to_move g old_path)).
      is_file s2 (dir_path @ [path_name f]) \<and> \<not> is_file s2 f"
    using mv by (simp add: is_file_def)
  have rest: "\<forall>f\<in>set (to_move g old_path) - set (take n (to_move g old_path)). is_file s2 f"
    using mv were by (auto simp: is_file_def)
  have p: "map_of (profiles ?g') profile_name = Some old_path"
    by (simp add: run migrate_failed_def emit_def map_of_set_profile_dir [OF assms(1)])
  show ?thesis
    using cnt moved rest p by (simp add: run migrate_failed_def emit_def)
qed

theorem edit_profile_failed_move_witness:
  "map_of (profiles c2_gui) ''Default'' = Some [''mods''] \<and>
   move_all (refused c2_env) (to_move c2_gui [''mods'']) [''new'']
     \<lparr>files = [[''mods'', ''a.pak''], [''mods'', ''b.pak''], [''mods'', ''c.pak'']],
      dirs = [[''new''], [''mods'']]\<rparr> =
     (Some OSError, 1,
      \<lparr>files = [[''new'', ''a.pak''], [''mods'', ''b.pak''], [''mods'', ''c.pak'']],
       dirs = [[''new''], [''mods'']]\<rparr>) \<and>
   mod_db (edit_profile c2_env (Some ''Default'') [''new''] True c2_gui) = mod_db c2_gui \<and>
   map_of (profiles (edit_profile c2_env (Some ''Default'') [''new''] True c2_gui)) ''Default'' =
     Some [''mods''] \<and>
   disk (edit_profile c2_env (Some ''Default'') [''new''] True c2_gui) =
     \<lparr>files = [[''new'', ''a.pak''], [''mods'', ''b.pak''], [''mods'', ''c.pak'']],
      dirs = [[''new''], [''mods'']]\<rparr>"
proof -
  have p: "map_of (profiles c2_gui) ''Default'' = Some [''mods'']"
    by (simp add: c2_gui_def gui0_def)
  have a: "[''new''] \<noteq> ([] :: path)" and b: "[''new''] \<noteq> [''mods'']"
    by simp_all
  have m: "move_all (refused c2_env) (to_move c2_gui [''mods'']) [''new'']
     \<lparr>files = [[''mods'', ''a.pak''], [''mods'', ''b.pak''], [''mods'', ''c.pak'']],
      dirs = [[''new''], [''mods'']]\<rparr> =
     (Some OSError, 1,
      \<lparr>files = [[''new'', ''a.pak''], [''mods'', ''b.pak''], [''mods'', ''c.pak'']],
       dirs = [[''new''], [''mods'']]\<rparr>)"
    by (simp only: c2_to_move c2_moves)
  from edit_profile_failed_move [OF p a b c2_mkdir m] p m show ?thesis
    by simp
qed

section \<open>What bulk update removes before it downloads\<close>








section \<open>A toggle when the file is in neither folder\<close>

text \<open>
  Where the slot reaches its test of the two candidate lists, a record whose file is in
  neither folder is rejected as C7 says: the warning is shown, the check box is set back
  to the state it had, the database is not changed and \<open>save_mod_db\<close> is not called.
  \<open>update_mod_state\<close> returns \<open>False\<close> and changes nothing.
\<close>

lemma toggle_missing_file_rejected:
  assumes "map_of (mod_db g) mod_name = Some info"
    and "\<not> block_mod_status_change g"
    and "mkdir (refused E) (disabled_dir_of (installed_path info)) (disk g) = Inr s1"
    and "glob (pattern_match E) (disk g) (installed_path info) mod_name = []"
    and "glob (pattern_match E) (disk g) (disabled_dir_of (installed_path info)) mod_name = []"
  shows "on_mod_status_changed E (mod_name, is_enabled) 0 g =
           (\<not> is_enabled, emit [Warning ''No mod files found''] (g\<lparr>disk := s1\<rparr>))"
proof -
  have f: "files s1 = files (disk g)"
    by (rule mkdir_files [OF assms(3)])
  have g1: "glob (pattern_match E) s1 (installed_path info) mod_name = []"
    and g2: "glob (pattern_match E) s1 (disabled_dir_of (installed_path info)) mod_name = []"
    using assms(4,5) by (simp_all add: glob_cong_files [OF f])
  show ?thesis
    using assms(1,2,3) g1 g2 by (simp add: on_mod_status_changed_def Let_def)
qed

lemma update_mod_state_missing_file:
  assumes "map_of (mod_db g) mod_name = Some info"
    and "glob (pattern_match E) (disk g) (installed_path info) mod_name = []"
    and "glob (pattern_match E) (disk g) (disabled_dir_of (installed_path info)) mod_name = []"
  shows "update_mod_state E mod_name is_enabled g = (False, g)"
  using assms by (simp add: update_mod_state_def Let_def)

text \<open>
  C7 at a record whose profile directory no longer exists (so its file is in neither
  folder): \<open>disabled_dir.mkdir(exist_ok=True)\<close> stands before the \<open>try\<close> block and raises
  \<open>FileNotFoundError\<close>, which leaves the slot. The record stays enabled and nothing is
  saved, but the check box, which the user has just cleared, is not set back.
\<close>

theorem toggle_in_missing_directory_not_compensated:
  "map_of (mod_db c7_gui) ''a.pak'' = Some rec_gone \<and> enabled rec_gone \<and>
   glob (pattern_match env0) (disk c7_gui) (installed_path rec_gone) ''a.pak'' = [] \<and>
   glob (pattern_match env0) (disk c7_gui) (disabled_dir_of (installed_path rec_gone)) ''a.pak'' = [] \<and>
   on_mod_status_changed env0 (''a.pak'', False) 0 c7_gui =
     (False, emit [Escaped FileNotFoundError] c7_gui)"
  by (simp add: on_mod_status_changed_def c7_gui_def gui0_def rec_gone_def rec_a_def env0_def
      mkdir_def is_dir_def is_file_def disabled_dir_of_def glob_def)

section \<open>The progress bar during a bulk update with a failure\<close>

lemma c6_step_a:
  "update_one c6_env 2 [] (''a.pak'', rec_a) (0, [], emit [SetValue 0] c6_gui) =
   (0, [(''a.pak'', ''No files extracted from archive'')],
    c6_gui\<lparr>disk := \<lparr>files = [[''mods'', ''a.zip''], [''mods'', ''b.pak'']], dirs = [[''mods'']]\<rparr>,
           events := [SetValue 0, Fetch ''https://mod.io/g/x/m/a'' [''mods''], SetValue 25]\<rparr>)"
proof -
  have bar: "bar_value 2 0 False 100 = 25"
    by (simp add: bar_value_def py_int_def)
  show ?thesis
    apply (simp add: update_one_def redownload_def remove_old_def emit_def Let_def)
    apply (simp add: c6_gui_def gui0_def rec_a_def c6_env_def env0_def fs_defs zip_defs
        sublist_code suffix_to_prefix bar emit_def)
    done
qed

lemma c6_step_b:
  "update_one c6_env 2 [] (''b.pak'', rec_b)
     (0, [(''a.pak'', ''No files extracted from archive'')],
      c6_gui\<lparr>disk := \<lparr>files = [[''mods'', ''a.zip''], [''mods'', ''b.pak'']], dirs = [[''mods'']]\<rparr>,
           events := [SetValue 0, Fetch ''https://mod.io/g/x/m/a'' [''mods''], SetValue 25]\<rparr>) =
   (1, [(''a.pak'', ''No files extracted from archive'')],
    c6_gui\<lparr>mod_db := [(''a.pak'', rec_a), (''b.pak'', rec_b\<lparr>updated_date := ''t1''\<rparr>)],
           disk := \<lparr>files = [[''mods'', ''b.pak''], [''mods'', ''a.zip'']], dirs = [[''mods'']]\<rparr>,
           events := [SetValue 0, Fetch ''https://mod.io/g/x/m/a'' [''mods''], SetValue 25,
                      Fetch ''https://mod.io/g/x/m/b'' [''mods''], SetValue 12, SetValue 25,
                      SetValue 50, SetValue 50]\<rparr>)"
proof -
  have bar: "bar_value 2 0 False 50 = 12" "bar_value 2 0 False 100 = 25"
    "bar_value 2 0 True 100 = 50" "py_int (100 / 2) = 50"
    by (simp_all add: bar_value_def py_int_def floor_eq_iff)
  show ?thesis
    apply (simp add: update_one_def redownload_def remove_old_def emit_def Let_def)
    apply (simp add: c6_gui_def gui0_def rec_a_def rec_b_def c6_env_def env0_def fs_defs zip_defs
        sublist_code suffix_to_prefix bar emit_def register_updated_def db_set_def Let_def
        py_int_def)
    done
qed

lemma c6_run:
  "events (check_updates c6_env True (Some ''Default'') c6_gui) =
     [SetValue 0, Fetch ''https://mod.io/g/x/m/a'' [''mods''], SetValue 25,
      Fetch ''https://mod.io/g/x/m/b'' [''mods''], SetValue 12, SetValue 25,
      SetValue 50, SetValue 50, SaveCalled,
      UpdateIncomplete [(''a.pak'', ''No files extracted from archive'')]]"
proof -
  have mods: "filter (\<lambda>(mid, info). profile info = ''Default'') (mod_db c6_gui) =
      [(''a.pak'', rec_a), (''b.pak'', rec_b)]"
    by (simp add: c6_gui_def rec_a_def rec_b_def)
  have dis: "disabled_mods_of [(''a.pak'', rec_a), (''b.pak'', rec_b)] = []"
    by (simp add: disabled_mods_of_def rec_a_def rec_b_def)
  have two: "Suc (Suc 0) = 2" by simp
  show ?thesis
    unfolding check_updates_def
    apply (simp add: mods Let_def dis)
    apply (simp add: two c6_step_a c6_step_b)
    apply (simp add: refresh_mod_tree_def save_mod_db_def write_db_def emit_def Let_def
        c6_gui_def gui0_def c6_env_def env0_def)
    done
qed

text \<open>
  C6 at a batch of two records in which the first record's archive has no entry: the
  first download brings the bar to 25; the record fails, the \<open>except\<close> branch goes on to
  the next record without counting the failed one in \<open>completed\<close>, and the second
  record's download starts again from the base 0, so the bar is set to 12 after 25. The
  values reported are not non-decreasing, and each record does not own a share of its own.
\<close>

theorem check_updates_bar_goes_back_after_failure:
  "bar_values (events (check_updates c6_env True (Some ''Default'') c6_gui)) =
     [0, 25, 12, 25, 50, 50] \<and>
   \<not> sorted (bar_values (events (check_updates c6_env True (Some ''Default'') c6_gui)))"
  by (simp add: c6_run)

section \<open>A bulk update in which records fail\<close>











end
